theory Spec2Isabelle
  imports Complex_Main
begin

section \<open>Values that travel in tokens and HTTP bodies\<close>

text \<open>
  The claims of a token are a Python \<^verbatim>\<open>dict\<close> decoded from JSON. \<open>JNull\<close> stands both for
  JSON \<^verbatim>\<open>null\<close> and for Python's \<^verbatim>\<open>None\<close>, which is what \<^verbatim>\<open>dict.get\<close> returns for a key
  that is absent. Non-integral numbers do not occur in anything the code reads and are left out.
\<close>

datatype jval =
    JNull
  | JBool bool
  | JInt int
  | JStr string
  | JArr "jval list"
  | JObj "(string \<times> jval) list"

type_synonym claims = "string \<rightharpoonup> jval"

text \<open>\<^verbatim>\<open>d.get(k)\<close>\<close>

definition dict_get :: "claims \<Rightarrow> string \<Rightarrow> jval" where
  "dict_get d k = (case d k of None \<Rightarrow> JNull | Some v \<Rightarrow> v)"

text \<open>Python truthiness, as used by \<^verbatim>\<open>a or b\<close> and \<^verbatim>\<open>if not x\<close>.\<close>

fun truthy :: "jval \<Rightarrow> bool" where
  "truthy JNull = False"
| "truthy (JBool b) = b"
| "truthy (JInt n) = (n \<noteq> 0)"
| "truthy (JStr s) = (s \<noteq> [])"
| "truthy (JArr xs) = (xs \<noteq> [])"
| "truthy (JObj kvs) = (kvs \<noteq> [])"

text \<open>\<^verbatim>\<open>a or b\<close>\<close>

definition py_or :: "jval \<Rightarrow> jval \<Rightarrow> jval" where
  "py_or a b = (if truthy a then a else b)"

text \<open>An \<^verbatim>\<open>Optional[str]\<close> written into a payload.\<close>

definition opt_str :: "string option \<Rightarrow> jval" where
  "opt_str d = (case d of None \<Rightarrow> JNull | Some s \<Rightarrow> JStr s)"

section \<open>The JWT library, symbolically\<close>

text \<open>
  \<^verbatim>\<open>jwt\<close> (PyJWT) is a third-party library. A token string is represented by what the library
  parses it to: a header, the claims, and the key that really produced the signature over
  exactly this header and these claims (or none). The compact serialisation itself is kept
  abstract: \<open>jwt_loads\<close> and \<open>jwt_dumps\<close> of the environment map between strings and parsed
  tokens, and nothing is assumed about them.
\<close>

datatype key = HmacKey string | RsaPublicKey nat

datatype signer = HmacSigned string | RsaSigned nat | NoSignature

record jose_header =
  hdr_alg :: "string option"
  hdr_kid :: "string option"

datatype token = Malformed | Jwt jose_header claims signer

datatype jwt_error =
    DecodeError
  | InvalidAlgorithmError
  | InvalidSignatureError
  | ImmatureSignatureError
  | ExpiredSignatureError
  | InvalidIssuerError
  | InvalidAudienceError
  | MissingRequiredClaimError string

text \<open>Does the signature verify under algorithm \<open>a\<close> with key \<open>k\<close>?\<close>

fun verify_signature :: "string \<Rightarrow> key \<Rightarrow> signer \<Rightarrow> bool" where
  "verify_signature a (HmacKey s) (HmacSigned s') = (a = ''HS256'' \<and> s = s')"
| "verify_signature a (RsaPublicKey n) (RsaSigned n') = (a = ''RS256'' \<and> n = n')"
| "verify_signature a k sg = False"

text \<open>
  The registered claims PyJWT validates by default, with no leeway: \<^verbatim>\<open>nbf\<close>, \<^verbatim>\<open>exp\<close>, then
  \<^verbatim>\<open>iss\<close> when an issuer is expected, then \<^verbatim>\<open>aud\<close>. (Checks that differ between releases,
  on \<^verbatim>\<open>iat\<close>, \<^verbatim>\<open>sub\<close> and \<^verbatim>\<open>jti\<close>, are not modelled: the real library accepts no more than
  this model does.)
\<close>

definition validate_nbf :: "claims \<Rightarrow> int \<Rightarrow> jwt_error option" where
  "validate_nbf p now =
     (case p ''nbf'' of
        None \<Rightarrow> None
      | Some (JInt n) \<Rightarrow> (if n > now then Some ImmatureSignatureError else None)
      | Some _ \<Rightarrow> Some DecodeError)"

definition validate_exp :: "claims \<Rightarrow> int \<Rightarrow> jwt_error option" where
  "validate_exp p now =
     (case p ''exp'' of
        None \<Rightarrow> None
      | Some (JInt e) \<Rightarrow> (if e \<le> now then Some ExpiredSignatureError else None)
      | Some _ \<Rightarrow> Some DecodeError)"

definition validate_iss :: "claims \<Rightarrow> string option \<Rightarrow> jwt_error option" where
  "validate_iss p issuer =
     (case issuer of
        None \<Rightarrow> None
      | Some i \<Rightarrow>
          (case p ''iss'' of
             None \<Rightarrow> Some (MissingRequiredClaimError ''iss'')
           | Some v \<Rightarrow> (if v = JStr i then None else Some InvalidIssuerError)))"

text \<open>The \<^verbatim>\<open>aud\<close> claim as a list of strings, when it is a string or a list of strings.\<close>

fun all_strings :: "jval list \<Rightarrow> string list option" where
  "all_strings [] = Some []"
| "all_strings (JStr s # vs) = (case all_strings vs of None \<Rightarrow> None | Some ss \<Rightarrow> Some (s # ss))"
| "all_strings (v # vs) = None"

fun audience_claims :: "jval \<Rightarrow> string list option" where
  "audience_claims (JStr s) = Some [s]"
| "audience_claims (JArr vs) = all_strings vs"
| "audience_claims v = None"

definition validate_aud :: "claims \<Rightarrow> string option \<Rightarrow> jwt_error option" where
  "validate_aud p audience =
     (case audience of
        None \<Rightarrow> (if truthy (dict_get p ''aud'') then Some InvalidAudienceError else None)
      | Some a \<Rightarrow>
          (if truthy (dict_get p ''aud'') then
             (case audience_claims (dict_get p ''aud'') of
                None \<Rightarrow> Some InvalidAudienceError
              | Some cs \<Rightarrow> (if a \<in> set cs then None else Some InvalidAudienceError))
           else Some (MissingRequiredClaimError ''aud'')))"

definition validate_claims :: "claims \<Rightarrow> string option \<Rightarrow> string option \<Rightarrow> int \<Rightarrow> jwt_error option" where
  "validate_claims p audience issuer now =
     (case validate_nbf p now of
        Some e \<Rightarrow> Some e
      | None \<Rightarrow>
          (case validate_exp p now of
             Some e \<Rightarrow> Some e
           | None \<Rightarrow>
               (case validate_iss p issuer of
                  Some e \<Rightarrow> Some e
                | None \<Rightarrow> validate_aud p audience)))"

section \<open>Configuration and environment\<close>

text \<open>\<^verbatim>\<open>config.py\<close>: the values read from the process environment at import time.\<close>

record config =
  INTERNAL_JWT_SECRET :: string
  INTERNAL_JWT_TTL_HOURS :: int
  INTERNAL_REFRESH_TTL_DAYS :: int
  ENTRA_TENANT_ID :: string
  ENTRA_CLIENT_ID :: string
  ENTRA_AUTHORITY :: string
  OPENID_CACHE_TTL_SECONDS :: int

definition INTERNAL_JWT_ALG :: string where
  "INTERNAL_JWT_ALG = ''HS256''"

definition JWT_REFRESH_MARGIN_SECONDS :: int where
  "JWT_REFRESH_MARGIN_SECONDS = 300"

definition JWT_TTL_SECONDS :: int where
  "JWT_TTL_SECONDS = 10800"

text \<open>
  What a handler raises. \<open>HTTPException\<close> carries the status code and the fixed part of the
  detail text (the interpolated library message is dropped). Every other exception is not
  caught by a handler; the web framework answers it with status 500.
\<close>

datatype exn =
    HTTPException int string
  | HTTPError
  | KeyError string
  | InvalidKeyError
  | RuntimeError string
  | JSONDecodeError

fun status_code :: "exn + 'a \<Rightarrow> int" where
  "status_code (Inr r) = 200"
| "status_code (Inl (HTTPException n d)) = n"
| "status_code (Inl e) = 500"

text \<open>The two documents the auth server fetches, reduced to the entries it reads.\<close>

record openid_config =
  jwks_uri :: "string option"

record jwk =
  jwk_kid :: "string option"
  jwk_rsa :: "nat option"

text \<open>
  The environment of one request to a server: the clocks (one reading per request, in
  seconds), the outcome of an HTTP GET followed by \<^verbatim>\<open>raise_for_status\<close> and \<^verbatim>\<open>json\<close>, and
  the JWT serialisation.
\<close>

record world =
  monotonic :: real
  utcnow :: int
  get_openid_configuration :: "string \<Rightarrow> exn + openid_config"
  get_jwks_document :: "string \<Rightarrow> exn + jwk list"
  jwt_loads :: "string \<Rightarrow> token"
  jwt_dumps :: "token \<Rightarrow> string"

text \<open>\<^verbatim>\<open>jwt.decode(token, key, algorithms=..., audience=..., issuer=...)\<close>\<close>

definition jwt_decode ::
  "world \<Rightarrow> string \<Rightarrow> key \<Rightarrow> string list \<Rightarrow> string option \<Rightarrow> string option \<Rightarrow> jwt_error + claims" where
  "jwt_decode w s k algorithms audience issuer =
     (case jwt_loads w s of
        Malformed \<Rightarrow> Inl DecodeError
      | Jwt h p sg \<Rightarrow>
          (case hdr_alg h of
             None \<Rightarrow> Inl InvalidAlgorithmError
           | Some a \<Rightarrow>
               if a \<in> set algorithms then
                 (if verify_signature a k sg then
                    (case validate_claims p audience issuer (utcnow w) of
                       Some e \<Rightarrow> Inl e
                     | None \<Rightarrow> Inr p)
                  else Inl InvalidSignatureError)
               else Inl InvalidAlgorithmError))"

text \<open>\<^verbatim>\<open>jwt.get_unverified_header(token)\<close>\<close>

definition get_unverified_header :: "world \<Rightarrow> string \<Rightarrow> jwt_error + jose_header" where
  "get_unverified_header w s =
     (case jwt_loads w s of Malformed \<Rightarrow> Inl DecodeError | Jwt h p sg \<Rightarrow> Inr h)"

text \<open>
  \<^verbatim>\<open>jwt.encode(payload, key, algorithm=...)\<close> with a \<^verbatim>\<open>str\<close> key. The source only ever signs
  with the HMAC algorithm.
\<close>

definition sign :: "string \<Rightarrow> string \<Rightarrow> signer" where
  "sign a secret = (if a = ''HS256'' then HmacSigned secret else NoSignature)"

definition encoded :: "claims \<Rightarrow> string \<Rightarrow> string \<Rightarrow> token" where
  "encoded p secret a = Jwt \<lparr>hdr_alg = Some a, hdr_kid = None\<rparr> p (sign a secret)"

definition jwt_encode :: "world \<Rightarrow> claims \<Rightarrow> string \<Rightarrow> string \<Rightarrow> string" where
  "jwt_encode w p secret a = jwt_dumps w (encoded p secret a)"

text \<open>\<^verbatim>\<open>jwt.algorithms.RSAAlgorithm.from_jwk(jwk)\<close>\<close>

definition from_jwk :: "jwk \<Rightarrow> exn + key" where
  "from_jwk j = (case jwk_rsa j of None \<Rightarrow> Inl InvalidKeyError | Some n \<Rightarrow> Inr (RsaPublicKey n))"

section \<open>The auth server (\<^verbatim>\<open>servers/auth.py\<close>)\<close>

record VerifyRequest =
  id_token :: string
  device_id :: "string option"

record TokenResponse =
  access_token :: string
  refresh_token :: string
  expires_in :: int

record RefreshRequest =
  req_refresh_token :: string

text \<open>
  The two module-level dictionaries \<^verbatim>\<open>_openid_config_cache\<close> and \<^verbatim>\<open>_jwks_cache\<close>: each maps
  a key to a document and the monotonic time it was stored at. They are the only state of
  the server, passed in and returned.
\<close>

record caches =
  openid_config_cache :: "string \<rightharpoonup> (openid_config \<times> real)"
  jwks_cache :: "string \<rightharpoonup> (jwk list \<times> real)"

definition is_cache_valid :: "config \<Rightarrow> world \<Rightarrow> (string \<rightharpoonup> ('a \<times> real)) \<Rightarrow> string \<Rightarrow> bool" where
  "is_cache_valid cfg w cache k =
     (case cache k of
        None \<Rightarrow> False
      | Some (d, ts) \<Rightarrow> monotonic w - ts < real_of_int (OPENID_CACHE_TTL_SECONDS cfg))"

definition get_openid_config :: "config \<Rightarrow> world \<Rightarrow> caches \<Rightarrow> (exn + openid_config) \<times> caches" where
  "get_openid_config cfg w st =
     (if (ENTRA_TENANT_ID cfg = '''' \<or> ENTRA_TENANT_ID cfg = ''YOUR_TENANT_ID'')
         \<or> (ENTRA_CLIENT_ID cfg = '''' \<or> ENTRA_CLIENT_ID cfg = ''YOUR_APP_REGISTRATION_CLIENT_ID'')
      then (Inl (HTTPException 500 ''Auth server is not configured (ENTRA_TENANT_ID/ENTRA_CLIENT_ID)''), st)
      else if INTERNAL_JWT_SECRET cfg = '''' \<or> INTERNAL_JWT_SECRET cfg = ''CHANGE_ME_INTERNAL_JWT_SECRET''
      then (Inl (HTTPException 500 ''Auth server is not configured (INTERNAL_JWT_SECRET)''), st)
      else if is_cache_valid cfg w (openid_config_cache st) ''config''
      then (case openid_config_cache st ''config'' of
              None \<Rightarrow> (Inl (KeyError ''config''), st)
            | Some (d, ts) \<Rightarrow> (Inr d, st))
      else (case get_openid_configuration w
                   (ENTRA_AUTHORITY cfg @ ''/v2.0/.well-known/openid-configuration'') of
              Inl e \<Rightarrow> (Inl e, st)
            | Inr data \<Rightarrow>
                (Inr data,
                 st\<lparr>openid_config_cache :=
                      (openid_config_cache st)(''config'' \<mapsto> (data, monotonic w))\<rparr>)))"

definition get_jwks :: "config \<Rightarrow> world \<Rightarrow> caches \<Rightarrow> (exn + jwk list) \<times> caches" where
  "get_jwks cfg w st =
     (if is_cache_valid cfg w (jwks_cache st) ''jwks''
      then (case jwks_cache st ''jwks'' of
              None \<Rightarrow> (Inl (KeyError ''jwks''), st)
            | Some (d, ts) \<Rightarrow> (Inr d, st))
      else (case get_openid_config cfg w st of
              (Inl e, st') \<Rightarrow> (Inl e, st')
            | (Inr conf, st') \<Rightarrow>
                (case jwks_uri conf of
                   None \<Rightarrow> (Inl (KeyError ''jwks_uri''), st')
                 | Some uri \<Rightarrow>
                     (case get_jwks_document w uri of
                        Inl e \<Rightarrow> (Inl e, st')
                      | Inr data \<Rightarrow>
                          (Inr data,
                           st'\<lparr>jwks_cache := (jwks_cache st')(''jwks'' \<mapsto> (data, monotonic w))\<rparr>)))))"

text \<open>
  The loop of \<^verbatim>\<open>_validate_entra_token\<close> over \<^verbatim>\<open>jwks.get("keys", [])\<close>: the first entry with
  the token's key id is turned into a key (which may raise); no entry leaves \<^verbatim>\<open>key = None\<close>.
\<close>

fun find_key :: "jwk list \<Rightarrow> string \<Rightarrow> exn + key option" where
  "find_key [] kid = Inr None"
| "find_key (j # js) kid =
     (if jwk_kid j = Some kid
      then (case from_jwk j of Inl e \<Rightarrow> Inl e | Inr k \<Rightarrow> Inr (Some k))
      else find_key js kid)"

definition issuer_expected :: "config \<Rightarrow> string" where
  "issuer_expected cfg = ''https://login.microsoftonline.com/'' @ ENTRA_TENANT_ID cfg @ ''/v2.0''"

definition validate_entra_token :: "config \<Rightarrow> world \<Rightarrow> caches \<Rightarrow> string \<Rightarrow> (exn + claims) \<times> caches" where
  "validate_entra_token cfg w st tok =
     (case get_jwks cfg w st of
        (Inl e, st') \<Rightarrow> (Inl e, st')
      | (Inr jwks, st') \<Rightarrow>
          (case get_unverified_header w tok of
             Inl e \<Rightarrow> (Inl (HTTPException 401 ''Invalid token header''), st')
           | Inr unverified_header \<Rightarrow>
               (case hdr_kid unverified_header of
                  None \<Rightarrow> (Inl (HTTPException 401 ''Missing kid in token header''), st')
                | Some kid \<Rightarrow>
                    if kid = [] then (Inl (HTTPException 401 ''Missing kid in token header''), st')
                    else
                      (case find_key jwks kid of
                         Inl e \<Rightarrow> (Inl e, st')
                       | Inr None \<Rightarrow> (Inl (HTTPException 401 ''Signing key not found for token''), st')
                       | Inr (Some k) \<Rightarrow>
                           (case jwt_decode w tok k [''RS256'']
                                   (Some (ENTRA_CLIENT_ID cfg)) (Some (issuer_expected cfg)) of
                              Inl e \<Rightarrow> (Inl (HTTPException 401 ''Invalid Entra token''), st')
                            | Inr c \<Rightarrow> (Inr c, st'))))))"

text \<open>
  The payloads of \<^verbatim>\<open>_issue_internal_tokens\<close>. Times are seconds since the epoch:
  \<^verbatim>\<open>timedelta(hours=h)\<close> is \<open>h * 3600\<close> seconds, \<^verbatim>\<open>timedelta(days=d)\<close> is \<open>d * 86400\<close>.
\<close>

definition access_payload :: "config \<Rightarrow> world \<Rightarrow> jval \<Rightarrow> string option \<Rightarrow> claims" where
  "access_payload cfg w subject dev =
     [''sub'' \<mapsto> subject,
      ''device_id'' \<mapsto> opt_str dev,
      ''type'' \<mapsto> JStr ''access'',
      ''exp'' \<mapsto> JInt (utcnow w + INTERNAL_JWT_TTL_HOURS cfg * 3600)]"

definition refresh_payload :: "config \<Rightarrow> world \<Rightarrow> jval \<Rightarrow> claims" where
  "refresh_payload cfg w subject =
     [''sub'' \<mapsto> subject,
      ''type'' \<mapsto> JStr ''refresh'',
      ''exp'' \<mapsto> JInt (utcnow w + INTERNAL_REFRESH_TTL_DAYS cfg * 86400)]"

definition issue_internal_tokens :: "config \<Rightarrow> world \<Rightarrow> jval \<Rightarrow> string option \<Rightarrow> TokenResponse" where
  "issue_internal_tokens cfg w subject dev =
     \<lparr>access_token =
        jwt_encode w (access_payload cfg w subject dev) (INTERNAL_JWT_SECRET cfg) INTERNAL_JWT_ALG,
      refresh_token =
        jwt_encode w (refresh_payload cfg w subject) (INTERNAL_JWT_SECRET cfg) INTERNAL_JWT_ALG,
      expires_in = INTERNAL_JWT_TTL_HOURS cfg * 3600\<rparr>"

text \<open>\<^verbatim>\<open>POST /auth/verify\<close>\<close>

definition verify :: "config \<Rightarrow> world \<Rightarrow> caches \<Rightarrow> VerifyRequest \<Rightarrow> (exn + TokenResponse) \<times> caches" where
  "verify cfg w st req =
     (case validate_entra_token cfg w st (id_token req) of
        (Inl e, st') \<Rightarrow> (Inl e, st')
      | (Inr c, st') \<Rightarrow>
          (let subject = py_or (dict_get c ''oid'') (dict_get c ''sub'') in
           if truthy subject
           then (Inr (issue_internal_tokens cfg w subject (device_id req)), st')
           else (Inl (HTTPException 401 ''Token has no subject''), st')))"

text \<open>\<^verbatim>\<open>POST /auth/refresh\<close>. It reads and writes no cache.\<close>

definition refresh :: "config \<Rightarrow> world \<Rightarrow> RefreshRequest \<Rightarrow> exn + TokenResponse" where
  "refresh cfg w req =
     (case jwt_decode w (req_refresh_token req) (HmacKey (INTERNAL_JWT_SECRET cfg))
             [INTERNAL_JWT_ALG] None None of
        Inl e \<Rightarrow> Inl (HTTPException 401 ''Invalid refresh token'')
      | Inr payload \<Rightarrow>
          if dict_get payload ''type'' \<noteq> JStr ''refresh''
          then Inl (HTTPException 400 ''Token is not a refresh token'')
          else
            (let subject = dict_get payload ''sub'' in
             if truthy subject
             then Inr (issue_internal_tokens cfg w subject None)
             else Inl (HTTPException 400 ''Refresh token has no subject'')))"

section \<open>The gateway's guard (\<^verbatim>\<open>servers/llm_gateway.py\<close>)\<close>

text \<open>\<^verbatim>\<open>s.split(" ", 1)[1]\<close> for a string that contains a space: what follows the first one.\<close>

definition after_first_space :: "string \<Rightarrow> string" where
  "after_first_space s = drop 1 (dropWhile (\<lambda>c. c \<noteq> CHR '' '') s)"

text \<open>\<^verbatim>\<open>if x:\<close> for an \<^verbatim>\<open>Optional[str]\<close>\<close>

definition nonempty :: "string option \<Rightarrow> bool" where
  "nonempty x = (case x of None \<Rightarrow> False | Some s \<Rightarrow> s \<noteq> [])"

definition extract_token :: "string option \<Rightarrow> string option \<Rightarrow> exn + string" where
  "extract_token authorization x_api_key =
     (if nonempty authorization \<and> take 7 (the authorization) = ''Bearer ''
      then Inr (after_first_space (the authorization))
      else if nonempty x_api_key then Inr (the x_api_key)
      else Inl (HTTPException 401 ''Missing auth (Bearer or X-Api-Key)''))"

definition get_current_user :: "config \<Rightarrow> world \<Rightarrow> string option \<Rightarrow> string option \<Rightarrow> exn + claims" where
  "get_current_user cfg w authorization x_api_key =
     (if INTERNAL_JWT_SECRET cfg = '''' \<or> INTERNAL_JWT_SECRET cfg = ''CHANGE_ME_INTERNAL_JWT_SECRET''
      then Inl (HTTPException 500 ''Gateway is not configured (INTERNAL_JWT_SECRET)'')
      else
        (case extract_token authorization x_api_key of
           Inl e \<Rightarrow> Inl e
         | Inr tok \<Rightarrow>
             (case jwt_decode w tok (HmacKey (INTERNAL_JWT_SECRET cfg)) [INTERNAL_JWT_ALG] None None of
                Inl e \<Rightarrow> Inl (HTTPException 401 ''Invalid internal token'')
              | Inr payload \<Rightarrow>
                  if dict_get payload ''type'' \<noteq> JStr ''access''
                  then Inl (HTTPException 401 ''Token is not an access token'')
                  else Inr payload)))"

section \<open>The client's token cache (\<^verbatim>\<open>client/agent.py\<close>)\<close>

text \<open>The dataclass \<^verbatim>\<open>TokenData\<close>; its token fields are prefixed, \<open>TokenResponse\<close> has the names.\<close>

record TokenData =
  td_access_token :: string
  td_refresh_token :: string
  expires_at :: int

text \<open>The JSON body of a successful answer of the auth server, as the client reads it.\<close>

record response_body =
  body_access_token :: "string option"
  body_refresh_token :: "string option"
  body_expires_in :: "int option"

text \<open>What running \<^verbatim>\<open>az account get-access-token\<close> gives, and the result of the MSAL flow.\<close>

datatype az_outcome = AzFailed | AzBadJson | AzJson "string option"

record msal_result =
  msal_error :: "string option"
  msal_id_token :: "string option"
  msal_access_token :: "string option"

text \<open>
  The environment of one call on the client: the wall clock \<^verbatim>\<open>int(time.time())\<close> (one
  reading per call), the device identifier, the outcomes of the two identity flows and of
  the two POST requests (after \<^verbatim>\<open>raise_for_status\<close> and \<^verbatim>\<open>json\<close>).
\<close>

record client_world =
  time_time :: int
  get_device_id :: "string option"
  which_az :: bool
  az_get_access_token :: az_outcome
  initiate_device_flow :: bool
  acquire_token_by_device_flow :: msal_result
  post_auth_verify :: "string option \<Rightarrow> string option \<Rightarrow> exn + response_body"
  post_auth_refresh :: "string \<Rightarrow> exn + response_body"

text \<open>
  The client's state: the token file (absent, or holding a pair written by \<^verbatim>\<open>save_token\<close>)
  and the log of every interaction that leaves the process.
\<close>

datatype io = RunAzCli | DeviceCodeFlow | PostAuthVerify | PostAuthRefresh

record client_state =
  token_store :: "TokenData option"
  io_log :: "io list"

definition performs :: "io \<Rightarrow> client_state \<Rightarrow> client_state" where
  "performs a st = st\<lparr>io_log := io_log st @ [a]\<rparr>"

definition is_expiring_soon :: "client_world \<Rightarrow> TokenData \<Rightarrow> int \<Rightarrow> bool" where
  "is_expiring_soon cw tok margin_seconds = (expires_at tok - time_time cw < margin_seconds)"

definition save_token :: "TokenData \<Rightarrow> client_state \<Rightarrow> client_state" where
  "save_token tok st = st\<lparr>token_store := Some tok\<rparr>"

definition load_token :: "client_state \<Rightarrow> TokenData option" where
  "load_token st = token_store st"

definition get_entra_token_via_azure_cli ::
  "client_world \<Rightarrow> client_state \<Rightarrow> (exn + string option) \<times> client_state" where
  "get_entra_token_via_azure_cli cw st =
     (if \<not> which_az cw then (Inr None, st)
      else
        (case az_get_access_token cw of
           AzFailed \<Rightarrow> (Inr None, performs RunAzCli st)
         | AzBadJson \<Rightarrow> (Inl JSONDecodeError, performs RunAzCli st)
         | AzJson t \<Rightarrow> (Inr t, performs RunAzCli st)))"

text \<open>\<^verbatim>\<open>a or b\<close> on \<^verbatim>\<open>Optional[str]\<close>\<close>

definition opt_or :: "string option \<Rightarrow> string option \<Rightarrow> string option" where
  "opt_or a b = (if nonempty a then a else b)"

definition get_entra_id_token_via_msal_device_code ::
  "config \<Rightarrow> client_world \<Rightarrow> client_state \<Rightarrow> (exn + string option) \<times> client_state" where
  "get_entra_id_token_via_msal_device_code cfg cw st =
     (if ENTRA_TENANT_ID cfg = '''' \<or> ENTRA_CLIENT_ID cfg = ''''
      then (Inl (RuntimeError ''Missing ENTRA_TENANT_ID / ENTRA_CLIENT_ID environment variables''), st)
      else if \<not> initiate_device_flow cw
      then (Inl (RuntimeError ''Device code flow init failed''), performs DeviceCodeFlow st)
      else
        (case msal_error (acquire_token_by_device_flow cw) of
           Some e \<Rightarrow> (Inl (RuntimeError ''MSAL device flow failed''), performs DeviceCodeFlow st)
         | None \<Rightarrow>
             (Inr (opt_or (msal_id_token (acquire_token_by_device_flow cw))
                          (msal_access_token (acquire_token_by_device_flow cw))),
              performs DeviceCodeFlow st)))"

definition exchange_entra_for_internal_token ::
  "client_world \<Rightarrow> client_state \<Rightarrow> string option \<Rightarrow> string option \<Rightarrow> (exn + TokenData) \<times> client_state" where
  "exchange_entra_for_internal_token cw st idt dev =
     (case post_auth_verify cw idt dev of
        Inl e \<Rightarrow> (Inl e, performs PostAuthVerify st)
      | Inr data \<Rightarrow>
          (let now = time_time cw;
               exp_at = now + (case body_expires_in data of None \<Rightarrow> JWT_TTL_SECONDS | Some n \<Rightarrow> n)
           in case body_access_token data of
                None \<Rightarrow> (Inl (KeyError ''access_token''), performs PostAuthVerify st)
              | Some a \<Rightarrow>
                  (case body_refresh_token data of
                     None \<Rightarrow> (Inl (KeyError ''refresh_token''), performs PostAuthVerify st)
                   | Some r \<Rightarrow>
                       (Inr \<lparr>td_access_token = a, td_refresh_token = r, expires_at = exp_at\<rparr>,
                        performs PostAuthVerify st))))"

definition refresh_internal_token ::
  "client_world \<Rightarrow> client_state \<Rightarrow> TokenData \<Rightarrow> (exn + TokenData) \<times> client_state" where
  "refresh_internal_token cw st tok =
     (case post_auth_refresh cw (td_refresh_token tok) of
        Inl e \<Rightarrow> (Inl e, performs PostAuthRefresh st)
      | Inr data \<Rightarrow>
          (let now = time_time cw;
               exp_at = now + (case body_expires_in data of None \<Rightarrow> JWT_TTL_SECONDS | Some n \<Rightarrow> n)
           in case body_access_token data of
                None \<Rightarrow> (Inl (KeyError ''access_token''), performs PostAuthRefresh st)
              | Some a \<Rightarrow>
                  (case body_refresh_token data of
                     None \<Rightarrow> (Inl (KeyError ''refresh_token''), performs PostAuthRefresh st)
                   | Some r \<Rightarrow>
                       (let new_token =
                              \<lparr>td_access_token = a, td_refresh_token = r, expires_at = exp_at\<rparr>
                        in (Inr new_token, save_token new_token (performs PostAuthRefresh st))))))"

text \<open>
  \<^verbatim>\<open>get_entra_token_via_azure_cli() or get_entra_id_token_via_msal_device_code()\<close>: the
  device-code flow runs only when the CLI gave nothing.
\<close>

definition acquire_entra_token ::
  "config \<Rightarrow> client_world \<Rightarrow> client_state \<Rightarrow> (exn + string option) \<times> client_state" where
  "acquire_entra_token cfg cw st =
     (case get_entra_token_via_azure_cli cw st of
        (Inl e, st') \<Rightarrow> (Inl e, st')
      | (Inr t, st') \<Rightarrow>
          if nonempty t then (Inr t, st')
          else get_entra_id_token_via_msal_device_code cfg cw st')"

definition ensure_token ::
  "config \<Rightarrow> client_world \<Rightarrow> client_state \<Rightarrow> (exn + TokenData) \<times> client_state" where
  "ensure_token cfg cw st =
     (case load_token st of
        None \<Rightarrow>
          (case acquire_entra_token cfg cw st of
             (Inl e, st') \<Rightarrow> (Inl e, st')
           | (Inr entra_token, st') \<Rightarrow>
               (case exchange_entra_for_internal_token cw st' entra_token (get_device_id cw) of
                  (Inl e, st'') \<Rightarrow> (Inl e, st'')
                | (Inr tok, st'') \<Rightarrow> (Inr tok, save_token tok st'')))
      | Some tok \<Rightarrow>
          if is_expiring_soon cw tok JWT_REFRESH_MARGIN_SECONDS
          then refresh_internal_token cw st tok
          else (Inr tok, st))"

section \<open>A concrete deployment\<close>

text \<open>
  One configured server (\<open>cfg0\<close>), one left at the defaults of \<^verbatim>\<open>config.py\<close>
  (\<open>cfg_default\<close>), and an environment in which a handful of token strings parse: an
  identity token signed by the issuer's key \<open>1\<close>, the same claims signed symmetrically,
  an internal pair signed with the server's secret, a refresh token without a subject, and a
  refresh token signed with the placeholder secret. These are the inputs the general theorems
  are instantiated at.
\<close>

definition cfg0 :: config where
  "cfg0 = \<lparr>INTERNAL_JWT_SECRET = ''s3cret'',
           INTERNAL_JWT_TTL_HOURS = 3,
           INTERNAL_REFRESH_TTL_DAYS = 30,
           ENTRA_TENANT_ID = ''t1'',
           ENTRA_CLIENT_ID = ''c1'',
           ENTRA_AUTHORITY = ''https://login.microsoftonline.com/t1'',
           OPENID_CACHE_TTL_SECONDS = 3600\<rparr>"

definition cfg_default :: config where
  "cfg_default = \<lparr>INTERNAL_JWT_SECRET = ''CHANGE_ME_INTERNAL_JWT_SECRET'',
           INTERNAL_JWT_TTL_HOURS = 3,
           INTERNAL_REFRESH_TTL_DAYS = 30,
           ENTRA_TENANT_ID = '''',
           ENTRA_CLIENT_ID = '''',
           ENTRA_AUTHORITY = ''https://login.microsoftonline.com/'',
           OPENID_CACHE_TTL_SECONDS = 3600\<rparr>"

definition entra_claims1 :: claims where
  "entra_claims1 =
     [''oid'' \<mapsto> JStr ''user-1'',
      ''sub'' \<mapsto> JStr ''pairwise-1'',
      ''iss'' \<mapsto> JStr ''https://login.microsoftonline.com/t1/v2.0'',
      ''aud'' \<mapsto> JStr ''c1'',
      ''exp'' \<mapsto> JInt 2000]"

definition access_claims1 :: claims where
  "access_claims1 =
     [''sub'' \<mapsto> JStr ''user-1'',
      ''device_id'' \<mapsto> JStr ''dev-1'',
      ''type'' \<mapsto> JStr ''access'',
      ''exp'' \<mapsto> JInt 10900]"

definition refresh_claims1 :: claims where
  "refresh_claims1 =
     [''sub'' \<mapsto> JStr ''user-1'',
      ''type'' \<mapsto> JStr ''refresh'',
      ''exp'' \<mapsto> JInt 2592100]"

definition nosub_claims :: claims where
  "nosub_claims = [''type'' \<mapsto> JStr ''refresh'', ''exp'' \<mapsto> JInt 2592100]"

definition forged_claims :: claims where
  "forged_claims = [''sub'' \<mapsto> JStr ''intruder'', ''type'' \<mapsto> JStr ''refresh'']"

definition loads0 :: "string \<Rightarrow> token" where
  "loads0 s =
     (if s = ''id1''
      then Jwt \<lparr>hdr_alg = Some ''RS256'', hdr_kid = Some ''k1''\<rparr> entra_claims1 (RsaSigned 1)
      else if s = ''idH''
      then Jwt \<lparr>hdr_alg = Some ''HS256'', hdr_kid = Some ''k1''\<rparr> entra_claims1 (HmacSigned ''pem-1'')
      else if s = ''acc1'' then encoded access_claims1 ''s3cret'' ''HS256''
      else if s = ''ref1'' then encoded refresh_claims1 ''s3cret'' ''HS256''
      else if s = ''nosub'' then encoded nosub_claims ''s3cret'' ''HS256''
      else if s = ''forged'' then encoded forged_claims ''CHANGE_ME_INTERNAL_JWT_SECRET'' ''HS256''
      else Malformed)"

definition dumps0 :: "token \<Rightarrow> string" where
  "dumps0 t =
     (case t of
        Malformed \<Rightarrow> ''malformed''
      | Jwt h p sg \<Rightarrow> (case dict_get p ''type'' of JStr ty \<Rightarrow> ty | _ \<Rightarrow> ''other''))"

definition jwks1 :: "jwk list" where
  "jwks1 = [\<lparr>jwk_kid = Some ''k1'', jwk_rsa = Some 1\<rparr>]"

definition w0 :: world where
  "w0 = \<lparr>monotonic = 50,
         utcnow = 1000,
         get_openid_configuration =
           (\<lambda>url. if url = ''https://login.microsoftonline.com/t1/v2.0/.well-known/openid-configuration''
                  then Inr \<lparr>jwks_uri = Some ''https://keys''\<rparr> else Inl HTTPError),
         get_jwks_document = (\<lambda>url. if url = ''https://keys'' then Inr jwks1 else Inl HTTPError),
         jwt_loads = loads0,
         jwt_dumps = dumps0\<rparr>"

definition cold :: caches where
  "cold = \<lparr>openid_config_cache = Map.empty, jwks_cache = Map.empty\<rparr>"

definition warm :: caches where
  "warm = \<lparr>openid_config_cache = [''config'' \<mapsto> (\<lparr>jwks_uri = Some ''https://keys''\<rparr>, 50)],
           jwks_cache = [''jwks'' \<mapsto> (jwks1, 50)]\<rparr>"

text \<open>
  On the client: a pair issued at time \<open>0\<close> with the default lifetime, and an environment in
  which the identity flow and the exchange would succeed while the refresh request fails.
\<close>

definition tok0 :: TokenData where
  "tok0 = \<lparr>td_access_token = ''acc1'', td_refresh_token = ''ref1'', expires_at = 10800\<rparr>"

definition body1 :: response_body where
  "body1 = \<lparr>body_access_token = Some ''acc2'', body_refresh_token = Some ''ref2'',
            body_expires_in = Some 10800\<rparr>"

definition cw0 :: "int \<Rightarrow> client_world" where
  "cw0 t = \<lparr>time_time = t,
            get_device_id = Some ''dev-1'',
            which_az = True,
            az_get_access_token = AzJson (Some ''id1''),
            initiate_device_flow = True,
            acquire_token_by_device_flow =
              \<lparr>msal_error = None, msal_id_token = Some ''id1'', msal_access_token = None\<rparr>,
            post_auth_verify = (\<lambda>idt dev. Inr body1),
            post_auth_refresh = (\<lambda>r. Inl HTTPError)\<rparr>"

definition st0 :: client_state where
  "st0 = \<lparr>token_store = Some tok0, io_log = []\<rparr>"

definition absent :: client_state where
  "absent = \<lparr>token_store = None, io_log = []\<rparr>"

section \<open>Facts about the library model and the concrete deployment\<close>

lemma jwt_decode_InrD:
  assumes "jwt_decode w s k algs aud iss = Inr c"
  shows "\<exists>h sg a. jwt_loads w s = Jwt h c sg \<and> hdr_alg h = Some a \<and> a \<in> set algs
           \<and> verify_signature a k sg \<and> validate_claims c aud iss (utcnow w) = None"
  using assms
  by (auto simp: jwt_decode_def split: token.splits option.splits if_splits)

lemma verify_signature_RS256D:
  assumes "verify_signature ''RS256'' k sg"
  shows "\<exists>n. k = RsaPublicKey n \<and> sg = RsaSigned n"
  using assms by (cases "(''RS256'', k, sg)" rule: verify_signature.cases) auto

lemma w0_simps:
  "monotonic w0 = 50" "utcnow w0 = 1000" "jwt_loads w0 = loads0" "jwt_dumps w0 = dumps0"
  by (simp_all add: w0_def)

lemma cfg0_simps:
  "INTERNAL_JWT_SECRET cfg0 = ''s3cret''" "INTERNAL_JWT_TTL_HOURS cfg0 = 3"
  "INTERNAL_REFRESH_TTL_DAYS cfg0 = 30" "ENTRA_TENANT_ID cfg0 = ''t1''"
  "ENTRA_CLIENT_ID cfg0 = ''c1''" "OPENID_CACHE_TTL_SECONDS cfg0 = 3600"
  by (simp_all add: cfg0_def)

lemmas validate_defs =
  validate_claims_def validate_nbf_def validate_exp_def validate_iss_def validate_aud_def
  dict_get_def

lemma decode_ref1:
  "jwt_decode w0 ''ref1'' (HmacKey ''s3cret'') [''HS256''] None None = Inr refresh_claims1"
  by (simp add: jwt_decode_def w0_simps loads0_def encoded_def sign_def validate_defs
      refresh_claims1_def)

lemma decode_acc1:
  "jwt_decode w0 ''acc1'' (HmacKey ''s3cret'') [''HS256''] None None = Inr access_claims1"
  by (simp add: jwt_decode_def w0_simps loads0_def encoded_def sign_def validate_defs
      access_claims1_def)

lemma decode_nosub:
  "jwt_decode w0 ''nosub'' (HmacKey ''s3cret'') [''HS256''] None None = Inr nosub_claims"
  by (simp add: jwt_decode_def w0_simps loads0_def encoded_def sign_def validate_defs
      nosub_claims_def)

lemma decode_junk:
  "jwt_decode w0 ''junk'' (HmacKey ''s3cret'') [''HS256''] None None = Inl DecodeError"
  by (simp add: jwt_decode_def w0_simps loads0_def)

lemma get_jwks_cold: "get_jwks cfg0 w0 cold = (Inr jwks1, warm)"
  by (simp add: get_jwks_def get_openid_config_def is_cache_valid_def cold_def warm_def
      cfg0_def w0_def)

lemma validate_id1: "validate_entra_token cfg0 w0 cold ''id1'' = (Inr entra_claims1, warm)"
  by (simp add: validate_entra_token_def get_jwks_cold get_unverified_header_def from_jwk_def
      issuer_expected_def jwt_decode_def w0_simps loads0_def cfg0_simps jwks1_def validate_defs
      entra_claims1_def)

text \<open>The gateway does accept the access token of the pair, presented as a bearer credential.\<close>

lemma gateway_accepts_access_token:
  "get_current_user cfg0 w0 (Some ''Bearer acc1'') None = Inr access_claims1"
  by (simp add: get_current_user_def extract_token_def nonempty_def after_first_space_def
      cfg0_simps INTERNAL_JWT_ALG_def decode_acc1)
     (simp add: dict_get_def access_claims1_def)

text \<open>
  The guard of \<^verbatim>\<open>_get_openid_config\<close> does stop \<^verbatim>\<open>POST /auth/verify\<close> under the placeholder
  secret whenever the key set has to be fetched (and under that secret it was never stored).
\<close>

lemma verify_refuses_placeholder_secret:
  assumes "INTERNAL_JWT_SECRET cfg = '''' \<or> INTERNAL_JWT_SECRET cfg = ''CHANGE_ME_INTERNAL_JWT_SECRET''"
    and "\<not> is_cache_valid cfg w (jwks_cache st) ''jwks''"
  shows "status_code (fst (verify cfg w st req)) = 500"
  using assms
  by (auto simp: verify_def validate_entra_token_def get_jwks_def get_openid_config_def)

section \<open>The claims\<close>

text \<open>
  Claim C1. While the signing secret has its default value, every operation of the auth
  service should fail with a configuration error (status 500) and sign nothing. The refresh
  endpoint has no such guard: under the defaults of \<^verbatim>\<open>config.py\<close>, a refresh token signed
  with the placeholder secret is accepted with status 200, and the answer is a new pair
  signed with the placeholder secret.
\<close>

theorem refresh_signs_with_placeholder_secret:
  "INTERNAL_JWT_SECRET cfg_default = ''CHANGE_ME_INTERNAL_JWT_SECRET''
   \<and> refresh cfg_default w0 \<lparr>req_refresh_token = ''forged''\<rparr>
       = Inr (issue_internal_tokens cfg_default w0 (JStr ''intruder'') None)
   \<and> status_code (refresh cfg_default w0 \<lparr>req_refresh_token = ''forged''\<rparr>) = 200
   \<and> access_token (issue_internal_tokens cfg_default w0 (JStr ''intruder'') None)
       = jwt_dumps w0 (Jwt \<lparr>hdr_alg = Some ''HS256'', hdr_kid = None\<rparr>
                           (access_payload cfg_default w0 (JStr ''intruder'') None)
                           (HmacSigned ''CHANGE_ME_INTERNAL_JWT_SECRET''))"
  by (simp add: refresh_def cfg_default_def INTERNAL_JWT_ALG_def forged_claims_def
      jwt_decode_def w0_simps loads0_def encoded_def sign_def validate_defs
      issue_internal_tokens_def jwt_encode_def Let_def)

text \<open>
  Claim C2, as amended. A validly signed token whose type claim is not \<^verbatim>\<open>"refresh"\<close> is
  answered by \<^verbatim>\<open>POST /auth/refresh\<close> with status 400, the status a missing subject gets too;
  status 401 is the answer to a token that fails decoding.
\<close>

theorem refresh_status_codes:
  "(jwt_decode w (req_refresh_token req) (HmacKey (INTERNAL_JWT_SECRET cfg)) [INTERNAL_JWT_ALG]
      None None = Inl e
      \<longrightarrow> refresh cfg w req = Inl (HTTPException 401 ''Invalid refresh token''))
   \<and> (jwt_decode w (req_refresh_token req) (HmacKey (INTERNAL_JWT_SECRET cfg)) [INTERNAL_JWT_ALG]
        None None = Inr p
        \<and> dict_get p ''type'' \<noteq> JStr ''refresh''
      \<longrightarrow> refresh cfg w req = Inl (HTTPException 400 ''Token is not a refresh token''))
   \<and> (jwt_decode w (req_refresh_token req) (HmacKey (INTERNAL_JWT_SECRET cfg)) [INTERNAL_JWT_ALG]
        None None = Inr p
        \<and> dict_get p ''type'' = JStr ''refresh'' \<and> \<not> truthy (dict_get p ''sub'')
      \<longrightarrow> refresh cfg w req = Inl (HTTPException 400 ''Refresh token has no subject''))"
  by (simp add: refresh_def)

theorem refresh_status_codes_witness:
  "jwt_decode w0 ''junk'' (HmacKey ''s3cret'') [''HS256''] None None = Inl DecodeError
   \<and> refresh cfg0 w0 \<lparr>req_refresh_token = ''junk''\<rparr> = Inl (HTTPException 401 ''Invalid refresh token'')
   \<and> jwt_decode w0 ''acc1'' (HmacKey ''s3cret'') [''HS256''] None None = Inr access_claims1
   \<and> dict_get access_claims1 ''type'' \<noteq> JStr ''refresh''
   \<and> refresh cfg0 w0 \<lparr>req_refresh_token = ''acc1''\<rparr>
       = Inl (HTTPException 400 ''Token is not a refresh token'')
   \<and> jwt_decode w0 ''nosub'' (HmacKey ''s3cret'') [''HS256''] None None = Inr nosub_claims
   \<and> dict_get nosub_claims ''type'' = JStr ''refresh'' \<and> \<not> truthy (dict_get nosub_claims ''sub'')
   \<and> refresh cfg0 w0 \<lparr>req_refresh_token = ''nosub''\<rparr>
       = Inl (HTTPException 400 ''Refresh token has no subject'')"
proof -
  have ty: "dict_get access_claims1 ''type'' \<noteq> JStr ''refresh''"
    by (simp add: dict_get_def access_claims1_def)
  have ns: "dict_get nosub_claims ''type'' = JStr ''refresh''" "\<not> truthy (dict_get nosub_claims ''sub'')"
    by (simp_all add: dict_get_def nosub_claims_def)
  show ?thesis
    using refresh_status_codes [of w0 "\<lparr>req_refresh_token = ''junk''\<rparr>" cfg0 DecodeError access_claims1]
      refresh_status_codes [of w0 "\<lparr>req_refresh_token = ''acc1''\<rparr>" cfg0 DecodeError access_claims1]
      refresh_status_codes [of w0 "\<lparr>req_refresh_token = ''nosub''\<rparr>" cfg0 DecodeError nosub_claims]
      ty ns
    by (simp add: decode_junk decode_acc1 decode_nosub cfg0_simps INTERNAL_JWT_ALG_def)
qed

theorem refresh_wrong_type_counterexample:
  "jwt_decode w0 ''acc1'' (HmacKey (INTERNAL_JWT_SECRET cfg0)) [INTERNAL_JWT_ALG] None None
     = Inr access_claims1
   \<and> dict_get access_claims1 ''type'' = JStr ''access''
   \<and> status_code (refresh cfg0 w0 \<lparr>req_refresh_token = ''acc1''\<rparr>) = 400
   \<and> status_code (refresh cfg0 w0 \<lparr>req_refresh_token = ''acc1''\<rparr>) \<noteq> 401"
  by (simp add: refresh_def decode_acc1 cfg0_simps INTERNAL_JWT_ALG_def)
     (simp add: dict_get_def access_claims1_def)

text \<open>
  Claim C3, as amended. When the cached pair is about to expire and the refresh request
  fails with an error of the transport or of the auth server, \<^verbatim>\<open>ensure_token\<close> raises that
  very error: the stored pair stays in place, the refresh request is the only interaction,
  and no identity flow is started.
\<close>

theorem refresh_failure_is_raised:
  assumes "token_store st = Some tok"
    and "is_expiring_soon cw tok JWT_REFRESH_MARGIN_SECONDS"
    and "post_auth_refresh cw (td_refresh_token tok) = Inl e"
  shows "ensure_token cfg cw st = (Inl e, st\<lparr>io_log := io_log st @ [PostAuthRefresh]\<rparr>)"
  using assms
  by (simp add: ensure_token_def load_token_def refresh_internal_token_def performs_def)

theorem refresh_failure_is_raised_witness:
  "token_store st0 = Some tok0
   \<and> is_expiring_soon (cw0 20000) tok0 JWT_REFRESH_MARGIN_SECONDS
   \<and> post_auth_refresh (cw0 20000) (td_refresh_token tok0) = Inl HTTPError
   \<and> ensure_token cfg0 (cw0 20000) st0 = (Inl HTTPError, st0\<lparr>io_log := io_log st0 @ [PostAuthRefresh]\<rparr>)"
proof -
  have a: "token_store st0 = Some tok0"
    by (simp add: st0_def)
  have b: "is_expiring_soon (cw0 20000) tok0 JWT_REFRESH_MARGIN_SECONDS"
    by (simp add: is_expiring_soon_def cw0_def tok0_def JWT_REFRESH_MARGIN_SECONDS_def)
  have c: "post_auth_refresh (cw0 20000) (td_refresh_token tok0) = Inl HTTPError"
    by (simp add: cw0_def)
  show ?thesis
    using a b c refresh_failure_is_raised [OF a b c, of cfg0] by simp
qed

text \<open>
  In an environment where signing in again would have succeeded (with no stored pair,
  \<^verbatim>\<open>ensure_token\<close> obtains and stores a new one), a failed refresh of the stored pair still
  ends in the transport error, with the old pair left in the store.
\<close>

theorem refresh_fallback_counterexample:
  "fst (ensure_token cfg0 (cw0 20000) absent)
     = Inr \<lparr>td_access_token = ''acc2'', td_refresh_token = ''ref2'', expires_at = 30800\<rparr>
   \<and> ensure_token cfg0 (cw0 20000) st0
     = (Inl HTTPError, \<lparr>token_store = Some tok0, io_log = [PostAuthRefresh]\<rparr>)"
  by (simp add: ensure_token_def load_token_def absent_def st0_def acquire_entra_token_def
      get_entra_token_via_azure_cli_def nonempty_def exchange_entra_for_internal_token_def
      refresh_internal_token_def performs_def save_token_def is_expiring_soon_def
      cw0_def tok0_def body1_def JWT_REFRESH_MARGIN_SECONDS_def)

text \<open>
  Claim C4, as amended. A pair issued at \<open>issued_at\<close> with the default lifetime of 10800
  seconds is served from the store, with no interaction at all, at every time up to and
  including \<open>issued_at + 10500\<close>; the first read that sends a refresh request is the one at
  \<open>issued_at + 10501\<close>. The cached pair is served precisely when
  \<open>now \<le> expires_at - margin\<close>.
\<close>

theorem cache_fresh_window:
  assumes "token_store st = Some tok"
    and "expires_at tok = issued_at + JWT_TTL_SECONDS"
  shows "(time_time cw \<le> issued_at + 10500 \<longrightarrow> ensure_token cfg cw st = (Inr tok, st))
       \<and> (issued_at + 10500 < time_time cw
            \<longrightarrow> io_log (snd (ensure_token cfg cw st)) = io_log st @ [PostAuthRefresh])
       \<and> (ensure_token cfg cw st = (Inr tok, st)
            \<longleftrightarrow> time_time cw \<le> expires_at tok - JWT_REFRESH_MARGIN_SECONDS)"
proof -
  have fresh: "ensure_token cfg cw st = (Inr tok, st)" if "time_time cw \<le> issued_at + 10500"
    using that assms
    by (simp add: ensure_token_def load_token_def is_expiring_soon_def
        JWT_REFRESH_MARGIN_SECONDS_def JWT_TTL_SECONDS_def)
  have stale: "io_log (snd (ensure_token cfg cw st)) = io_log st @ [PostAuthRefresh]"
    if "issued_at + 10500 < time_time cw"
    using that assms
    by (simp add: ensure_token_def load_token_def is_expiring_soon_def
        JWT_REFRESH_MARGIN_SECONDS_def JWT_TTL_SECONDS_def refresh_internal_token_def
        performs_def save_token_def Let_def split: sum.splits option.splits)
  have bound: "expires_at tok - JWT_REFRESH_MARGIN_SECONDS = issued_at + 10500"
    using assms(2) by (simp add: JWT_REFRESH_MARGIN_SECONDS_def JWT_TTL_SECONDS_def)
  show ?thesis
  proof (cases "time_time cw \<le> issued_at + 10500")
    case True
    with fresh bound show ?thesis by simp
  next
    case False
    then have late: "issued_at + 10500 < time_time cw" by simp
    have "ensure_token cfg cw st \<noteq> (Inr tok, st)"
    proof
      assume "ensure_token cfg cw st = (Inr tok, st)"
      with stale[OF late] show False by simp
    qed
    with stale[OF late] False bound show ?thesis by simp
  qed
qed

theorem cache_fresh_window_witness:
  "token_store st0 = Some tok0
   \<and> expires_at tok0 = 0 + JWT_TTL_SECONDS
   \<and> ensure_token cfg0 (cw0 10499) st0 = (Inr tok0, st0)
   \<and> ensure_token cfg0 (cw0 10500) st0 = (Inr tok0, st0)
   \<and> io_log (snd (ensure_token cfg0 (cw0 10501) st0)) = io_log st0 @ [PostAuthRefresh]"
proof -
  have a: "token_store st0 = Some tok0"
    by (simp add: st0_def)
  have b: "expires_at tok0 = 0 + JWT_TTL_SECONDS"
    by (simp add: tok0_def JWT_TTL_SECONDS_def)
  have t: "time_time (cw0 10499) = 10499" "time_time (cw0 10500) = 10500"
    "time_time (cw0 10501) = 10501"
    by (simp_all add: cw0_def)
  show ?thesis
    using a b cache_fresh_window [OF a b, of "cw0 10499" cfg0]
      cache_fresh_window [OF a b, of "cw0 10500" cfg0]
      cache_fresh_window [OF a b, of "cw0 10501" cfg0]
    by (simp add: t)
qed

theorem refresh_boundary_counterexample:
  "expires_at tok0 = 0 + 10800
   \<and> JWT_REFRESH_MARGIN_SECONDS = 300
   \<and> ensure_token cfg0 (cw0 10500) st0 = (Inr tok0, st0)
   \<and> io_log (snd (ensure_token cfg0 (cw0 10500) st0)) = []"
  by (simp add: ensure_token_def load_token_def st0_def is_expiring_soon_def cw0_def tok0_def
      JWT_REFRESH_MARGIN_SECONDS_def)

text \<open>
  Claim C5. External verification accepts nothing but the pinned algorithm: a token whose
  header names any algorithm other than RS256 is rejected, and so is a token whose
  signature is a symmetric one (whatever secret it was made with, a published public key
  included, and whatever its header says).
\<close>

theorem algorithm_is_pinned:
  assumes "jwt_loads w s = Jwt h p sg"
    and "hdr_alg h \<noteq> Some ''RS256'' \<or> sg = HmacSigned secret"
  shows "\<exists>e. fst (validate_entra_token cfg w st s) = Inl e"
proof -
  have no: "jwt_decode w s k [''RS256''] aud iss \<noteq> Inr c" for k aud iss c
  proof
    assume "jwt_decode w s k [''RS256''] aud iss = Inr c"
    from jwt_decode_InrD[OF this] assms(1)
    have "hdr_alg h = Some ''RS256''" and "verify_signature ''RS256'' k sg"
      by auto
    with verify_signature_RS256D[of k sg] assms(2) show False by auto
  qed
  show ?thesis
    using no
    by (auto simp: validate_entra_token_def split: prod.splits sum.splits option.splits)
qed

theorem algorithm_is_pinned_witness:
  "jwt_loads w0 ''idH''
     = Jwt \<lparr>hdr_alg = Some ''HS256'', hdr_kid = Some ''k1''\<rparr> entra_claims1 (HmacSigned ''pem-1'')
   \<and> hdr_alg \<lparr>hdr_alg = Some ''HS256'', hdr_kid = Some ''k1''\<rparr> \<noteq> Some ''RS256''
   \<and> (\<exists>e. fst (validate_entra_token cfg0 w0 cold ''idH'') = Inl e)"
proof -
  have a: "jwt_loads w0 ''idH''
     = Jwt \<lparr>hdr_alg = Some ''HS256'', hdr_kid = Some ''k1''\<rparr> entra_claims1 (HmacSigned ''pem-1'')"
    by (simp add: w0_simps loads0_def)
  have b: "hdr_alg \<lparr>hdr_alg = Some ''HS256'', hdr_kid = Some ''k1''\<rparr> \<noteq> Some ''RS256''
            \<or> HmacSigned ''pem-1'' = HmacSigned ''pem-1''"
    by simp
  show ?thesis
    using a algorithm_is_pinned [OF a b, of cfg0 cold] by simp
qed

text \<open>
  Claim C6. Verification with the opposite expected type always fails: a token whose type
  claim is \<^verbatim>\<open>"refresh"\<close> is never accepted by the gateway's guard, whichever header carries
  it, and a token whose type claim is \<^verbatim>\<open>"access"\<close> is never accepted by the refresh endpoint.
\<close>

theorem opposite_type_is_rejected:
  assumes "jwt_loads w s = Jwt h p sg"
  shows "(dict_get p ''type'' = JStr ''refresh'' \<and> extract_token authorization x_api_key = Inr s
            \<longrightarrow> (\<exists>e. get_current_user cfg w authorization x_api_key = Inl e))
       \<and> (dict_get p ''type'' = JStr ''access''
            \<longrightarrow> (\<exists>e. refresh cfg w \<lparr>req_refresh_token = s\<rparr> = Inl e))"
proof -
  have dec: "c = p" if "jwt_decode w s k algs aud iss = Inr c" for k algs aud iss c
    using jwt_decode_InrD[OF that] assms by auto
  show ?thesis
  proof (intro conjI impI)
    assume a: "dict_get p ''type'' = JStr ''refresh'' \<and> extract_token authorization x_api_key = Inr s"
    show "\<exists>e. get_current_user cfg w authorization x_api_key = Inl e"
    proof (cases "jwt_decode w s (HmacKey (INTERNAL_JWT_SECRET cfg)) [INTERNAL_JWT_ALG] None None")
      case (Inl e)
      with a show ?thesis by (simp add: get_current_user_def)
    next
      case (Inr c)
      with dec[OF Inr] a show ?thesis by (simp add: get_current_user_def)
    qed
  next
    assume a: "dict_get p ''type'' = JStr ''access''"
    show "\<exists>e. refresh cfg w \<lparr>req_refresh_token = s\<rparr> = Inl e"
    proof (cases "jwt_decode w s (HmacKey (INTERNAL_JWT_SECRET cfg)) [INTERNAL_JWT_ALG] None None")
      case (Inl e)
      then show ?thesis by (simp add: refresh_def)
    next
      case (Inr c)
      with dec[OF Inr] a show ?thesis by (simp add: refresh_def)
    qed
  qed
qed

theorem opposite_type_is_rejected_witness:
  "jwt_loads w0 ''ref1'' = encoded refresh_claims1 ''s3cret'' ''HS256''
   \<and> dict_get refresh_claims1 ''type'' = JStr ''refresh''
   \<and> extract_token (Some ''Bearer ref1'') None = Inr ''ref1''
   \<and> (\<exists>e. get_current_user cfg0 w0 (Some ''Bearer ref1'') None = Inl e)
   \<and> jwt_loads w0 ''acc1'' = encoded access_claims1 ''s3cret'' ''HS256''
   \<and> dict_get access_claims1 ''type'' = JStr ''access''
   \<and> (\<exists>e. refresh cfg0 w0 \<lparr>req_refresh_token = ''acc1''\<rparr> = Inl e)"
proof -
  have r: "jwt_loads w0 ''ref1'' = Jwt \<lparr>hdr_alg = Some ''HS256'', hdr_kid = None\<rparr> refresh_claims1 (sign ''HS256'' ''s3cret'')"
    by (simp add: w0_simps loads0_def encoded_def)
  have a: "jwt_loads w0 ''acc1'' = Jwt \<lparr>hdr_alg = Some ''HS256'', hdr_kid = None\<rparr> access_claims1 (sign ''HS256'' ''s3cret'')"
    by (simp add: w0_simps loads0_def encoded_def)
  have x: "extract_token (Some ''Bearer ref1'') None = Inr ''ref1''"
    by (simp add: extract_token_def nonempty_def after_first_space_def)
  have t: "dict_get refresh_claims1 ''type'' = JStr ''refresh''"
    "dict_get access_claims1 ''type'' = JStr ''access''"
    by (simp_all add: dict_get_def refresh_claims1_def access_claims1_def)
  show ?thesis
    using r a x t
      opposite_type_is_rejected [OF r, of "Some ''Bearer ref1''" None cfg0]
      opposite_type_is_rejected [OF a, of "Some ''Bearer ref1''" None cfg0]
    by (simp add: encoded_def)
qed

text \<open>
  Claim C7. When the external token passes verification, the subject is its \<^verbatim>\<open>oid\<close> claim
  if that is present and not empty (truthy, in Python's sense), and its \<^verbatim>\<open>sub\<close> claim
  otherwise. If that subject is not empty, \<^verbatim>\<open>POST /auth/verify\<close> answers with a pair whose
  access token encodes a payload with exactly this subject; if the subject is empty, the
  answer is status 401 and nothing is issued.
\<close>

theorem verify_issues_for_external_subject:
  assumes "validate_entra_token cfg w st (id_token req) = (Inr c, st')"
    and "subject = (if truthy (dict_get c ''oid'') then dict_get c ''oid'' else dict_get c ''sub'')"
  shows "if truthy subject
         then verify cfg w st req = (Inr (issue_internal_tokens cfg w subject (device_id req)), st')
              \<and> access_token (issue_internal_tokens cfg w subject (device_id req))
                  = jwt_encode w (access_payload cfg w subject (device_id req))
                      (INTERNAL_JWT_SECRET cfg) INTERNAL_JWT_ALG
              \<and> access_payload cfg w subject (device_id req) ''sub'' = Some subject
         else verify cfg w st req = (Inl (HTTPException 401 ''Token has no subject''), st')"
  using assms
  by (simp add: verify_def py_or_def Let_def issue_internal_tokens_def access_payload_def)

theorem verify_issues_for_external_subject_witness:
  "validate_entra_token cfg0 w0 cold (id_token \<lparr>id_token = ''id1'', device_id = Some ''dev-1''\<rparr>)
     = (Inr entra_claims1, warm)
   \<and> JStr ''user-1''
       = (if truthy (dict_get entra_claims1 ''oid'') then dict_get entra_claims1 ''oid''
          else dict_get entra_claims1 ''sub'')
   \<and> verify cfg0 w0 cold \<lparr>id_token = ''id1'', device_id = Some ''dev-1''\<rparr>
       = (Inr (issue_internal_tokens cfg0 w0 (JStr ''user-1'') (Some ''dev-1'')), warm)
   \<and> access_payload cfg0 w0 (JStr ''user-1'') (Some ''dev-1'') ''sub'' = Some (JStr ''user-1'')"
proof -
  have a: "validate_entra_token cfg0 w0 cold (id_token \<lparr>id_token = ''id1'', device_id = Some ''dev-1''\<rparr>)
     = (Inr entra_claims1, warm)"
    by (simp add: validate_id1)
  have b: "JStr ''user-1''
       = (if truthy (dict_get entra_claims1 ''oid'') then dict_get entra_claims1 ''oid''
          else dict_get entra_claims1 ''sub'')"
    by (simp add: dict_get_def entra_claims1_def)
  have c: "truthy (JStr ''user-1'')"
    by simp
  from verify_issues_for_external_subject [OF a b] c
  have "verify cfg0 w0 cold \<lparr>id_token = ''id1'', device_id = Some ''dev-1''\<rparr>
       = (Inr (issue_internal_tokens cfg0 w0 (JStr ''user-1'') (Some ''dev-1'')), warm)
     \<and> access_payload cfg0 w0 (JStr ''user-1'') (Some ''dev-1'') ''sub'' = Some (JStr ''user-1'')"
    by simp
  with a b show ?thesis by blast
qed

text \<open>
  Claim C8. Internal issuance mints both tokens together: the access token encodes a
  payload with the subject, the device identifier (null when none was given) and type
  \<^verbatim>\<open>"access"\<close>; the refresh token encodes a payload with the subject and type \<^verbatim>\<open>"refresh"\<close>
  and no device identifier; and \<^verbatim>\<open>expires_in\<close> is the access token's lifetime, the hours of
  the configuration times 3600, which is also what the access token's \<^verbatim>\<open>exp\<close> lies ahead of
  the time of issue.
\<close>

theorem issue_internal_tokens_shape:
  "access_token (issue_internal_tokens cfg w subject dev)
     = jwt_encode w (access_payload cfg w subject dev) (INTERNAL_JWT_SECRET cfg) INTERNAL_JWT_ALG
   \<and> access_payload cfg w subject dev ''sub'' = Some subject
   \<and> access_payload cfg w subject dev ''device_id'' = Some (opt_str dev)
   \<and> access_payload cfg w subject dev ''type'' = Some (JStr ''access'')
   \<and> access_payload cfg w subject dev ''exp''
       = Some (JInt (utcnow w + expires_in (issue_internal_tokens cfg w subject dev)))
   \<and> refresh_token (issue_internal_tokens cfg w subject dev)
       = jwt_encode w (refresh_payload cfg w subject) (INTERNAL_JWT_SECRET cfg) INTERNAL_JWT_ALG
   \<and> refresh_payload cfg w subject ''sub'' = Some subject
   \<and> refresh_payload cfg w subject ''device_id'' = None
   \<and> refresh_payload cfg w subject ''type'' = Some (JStr ''refresh'')
   \<and> refresh_payload cfg w subject ''exp''
       = Some (JInt (utcnow w + INTERNAL_REFRESH_TTL_DAYS cfg * 86400))
   \<and> expires_in (issue_internal_tokens cfg w subject dev) = INTERNAL_JWT_TTL_HOURS cfg * 3600"
  by (simp add: issue_internal_tokens_def access_payload_def refresh_payload_def)

theorem issue_internal_tokens_shape_witness:
  "access_payload cfg0 w0 (JStr ''user-1'') (Some ''dev-1'') ''device_id'' = Some (JStr ''dev-1'')
   \<and> access_payload cfg0 w0 (JStr ''user-1'') (Some ''dev-1'') ''exp'' = Some (JInt 11800)
   \<and> refresh_payload cfg0 w0 (JStr ''user-1'') ''device_id'' = None
   \<and> refresh_payload cfg0 w0 (JStr ''user-1'') ''exp'' = Some (JInt 2593000)
   \<and> expires_in (issue_internal_tokens cfg0 w0 (JStr ''user-1'') (Some ''dev-1'')) = 10800"
  using issue_internal_tokens_shape [of cfg0 w0 "JStr ''user-1''" "Some ''dev-1''"]
  by (simp add: cfg0_simps w0_simps opt_str_def)

text \<open>
  Claim C10. Every successful refresh answers with an access token whose \<^verbatim>\<open>device_id\<close>
  claim is null: the new pair is issued for the subject of the presented refresh token and
  with no device identifier, whatever the presented token carries.
\<close>

theorem refresh_drops_device_binding:
  assumes "refresh cfg w req = Inr resp"
  shows "\<exists>p. jwt_decode w (req_refresh_token req) (HmacKey (INTERNAL_JWT_SECRET cfg))
               [INTERNAL_JWT_ALG] None None = Inr p
            \<and> resp = issue_internal_tokens cfg w (dict_get p ''sub'') None
            \<and> access_token resp
                = jwt_encode w (access_payload cfg w (dict_get p ''sub'') None)
                    (INTERNAL_JWT_SECRET cfg) INTERNAL_JWT_ALG
            \<and> access_payload cfg w (dict_get p ''sub'') None ''device_id'' = Some JNull"
  using assms
  by (auto simp: refresh_def Let_def issue_internal_tokens_def access_payload_def opt_str_def
      split: sum.splits if_splits)

theorem refresh_drops_device_binding_witness:
  "refresh cfg0 w0 \<lparr>req_refresh_token = ''ref1''\<rparr>
     = Inr (issue_internal_tokens cfg0 w0 (JStr ''user-1'') None)
   \<and> access_payload cfg0 w0 (JStr ''user-1'') None ''device_id'' = Some JNull
   \<and> (\<exists>p. jwt_decode w0 (req_refresh_token \<lparr>req_refresh_token = ''ref1''\<rparr>)
             (HmacKey (INTERNAL_JWT_SECRET cfg0)) [INTERNAL_JWT_ALG] None None = Inr p
          \<and> access_payload cfg0 w0 (dict_get p ''sub'') None ''device_id'' = Some JNull)"
proof -
  have a: "refresh cfg0 w0 \<lparr>req_refresh_token = ''ref1''\<rparr>
     = Inr (issue_internal_tokens cfg0 w0 (JStr ''user-1'') None)"
    by (simp add: refresh_def decode_ref1 cfg0_simps INTERNAL_JWT_ALG_def dict_get_def
        refresh_claims1_def)
  have b: "access_payload cfg0 w0 (JStr ''user-1'') None ''device_id'' = Some JNull"
    by (simp add: access_payload_def opt_str_def)
  from refresh_drops_device_binding [OF a] a b show ?thesis by blast
qed

end
